theory Spec2Isabelle
  imports Complex_Main "HOL-Library.Sublist"
begin

section \<open>Python strings and values\<close>

text \<open>
  A Python \<open>str\<close> is modelled as a \<open>string\<close>; a \<open>char\<close> stands for the code point
  of the same number (0 to 255). On that range \<open>str.isspace\<close> holds for the code points
  9 to 13, 28 to 32, 133 and 160, and \<open>str.lower\<close> moves A to Z and the upper-case letters
  192 to 222 (but not the sign 215) up by 32.
\<close>

definition isspace :: "char \<Rightarrow> bool" where
  "isspace c =
     (let n = (of_char c :: nat)
      in (9 \<le> n \<and> n \<le> 13) \<or> (28 \<le> n \<and> n \<le> 32) \<or> n = 133 \<or> n = 160)"

definition lower_char :: "char \<Rightarrow> char" where
  "lower_char c =
     (let n = (of_char c :: nat)
      in if (65 \<le> n \<and> n \<le> 90) \<or> (192 \<le> n \<and> n \<le> 222 \<and> n \<noteq> 215)
         then char_of (n + 32) else c)"

definition lower :: "string \<Rightarrow> string" where
  "lower s = map lower_char s"

definition lstrip :: "string \<Rightarrow> string" where
  "lstrip s = dropWhile isspace s"

definition rstrip :: "string \<Rightarrow> string" where
  "rstrip s = rev (dropWhile isspace (rev s))"

text \<open>\<open>s.strip()\<close>: leading and trailing whitespace removed.\<close>

definition strip :: "string \<Rightarrow> string" where
  "strip s = rstrip (lstrip s)"

text \<open>\<open>s.rstrip(chars)\<close>: trailing characters that occur in \<open>chars\<close> removed.\<close>

definition rstrip_chars :: "string \<Rightarrow> string \<Rightarrow> string" where
  "rstrip_chars chars s = rev (dropWhile (\<lambda>c. c \<in> set chars) (rev s))"

text \<open>
  An \<open>Optional[str]\<close> under a truth test: \<open>None\<close> and the empty string are false, and
  \<open>nonempty\<close> yields the string exactly when the test \<open>if x\<close> passes
  (so \<open>if not x: raise ...\<close> is the \<open>None\<close> branch).
\<close>

definition nonempty :: "string option \<Rightarrow> string option" where
  "nonempty x = (case x of None \<Rightarrow> None | Some s \<Rightarrow> if s = [] then None else Some s)"

text \<open>\<open>x or d\<close> for an \<open>Optional[str]\<close> \<open>x\<close> and a string \<open>d\<close>.\<close>

definition py_or :: "string option \<Rightarrow> string \<Rightarrow> string" where
  "py_or x d = (case x of None \<Rightarrow> d | Some s \<Rightarrow> if s = [] then d else s)"


datatype error =
    ValueError string
  | HTTPError int
  | RequestException
  | APIError
  | JSONDecodeError
  | KeyError string
  | TypeError
  | AttributeError
  | IndexError

section \<open>Messages and backend calls\<close>

record message =
  role :: string
  content :: string

text \<open>The keyword arguments of \<open>client.messages.create\<close> (Anthropic SDK).\<close>

record anthropic_create =
  ac_model :: string
  ac_max_tokens :: int
  ac_system :: "string option"
  ac_messages :: "message list"

text \<open>The keyword arguments of \<open>client.chat.completions.create\<close> (OpenAI SDK).\<close>

record openai_create =
  oc_model :: string
  oc_messages :: "message list"
  oc_max_tokens :: int
  oc_temperature :: real

text \<open>An \<open>OpenAI(api_key=..., base_url=...)\<close> client; \<open>None\<close> when no base URL is passed.\<close>

record openai_client =
  cl_api_key :: string
  cl_base_url :: "string option"

text \<open>The \<open>json=\<close> body of the Ollama request.\<close>

record ollama_body =
  ob_model :: string
  ob_messages :: "message list"
  ob_stream :: bool
  ob_num_predict :: int
  ob_temperature :: real

datatype json =
    JNull
  | JBool bool
  | JInt int
  | JFloat real
  | JStr string
  | JArr "json list"
  | JObj "(string \<times> json) list"

text \<open>
  An HTTP response as \<open>requests\<close> hands it over: the status code and what
  \<open>response.json()\<close> yields (\<open>None\<close> when the body is not JSON).
\<close>

record http_response =
  status_code :: int
  json_of :: "json option"

datatype net_call =
    HttpPost string ollama_body nat
  | OpenAIChatCreate openai_client openai_create
  | AnthropicMessagesCreate string anthropic_create

text \<open>
  The outside world a chat call talks to. Each field answers one kind of call, with an
  error when the transport or the SDK raises. An OpenAI reply is the list of
  \<open>choices[i].message.content\<close>, an Anthropic reply the list of \<open>content[i].text\<close>
  (\<open>None\<close> where the attribute is \<open>None\<close> or missing).
\<close>

record backend =
  http_post :: "string \<Rightarrow> ollama_body \<Rightarrow> nat \<Rightarrow> error + http_response"
  openai_chat_create :: "openai_client \<Rightarrow> openai_create \<Rightarrow> error + string option list"
  anthropic_messages_create :: "string \<Rightarrow> anthropic_create \<Rightarrow> error + string option list"

datatype provider =
    OpenAIProvider string openai_client
  | AnthropicProvider string string
  | OllamaProvider string string
  | VLLMProvider string openai_client
  | OpenAICompatibleProvider string openai_client

text \<open>
  Process state: \<open>os.environ\<close>, the module global \<open>_provider\<close>, the calls made to
  backends so far, and a ghost counter of the invocations of \<open>get_llm_provider\<close>.
\<close>

record world =
  environ :: "string \<rightharpoonup> string"
  provider_global :: "provider option"
  factory_calls :: nat
  net_log :: "net_call list"

section \<open>AnthropicProvider.chat\<close>

text \<open>The \<open>for msg in messages\<close> loop, with its two accumulators.\<close>

fun anthropic_split :: "message list \<Rightarrow> string \<Rightarrow> message list \<Rightarrow> string \<times> message list" where
  "anthropic_split [] system_content chat_messages = (system_content, chat_messages)"
| "anthropic_split (msg # rest) system_content chat_messages =
     (if role msg = ''system''
      then anthropic_split rest (system_content @ content msg @ ''\<newline>'') chat_messages
      else anthropic_split rest system_content (chat_messages @ [msg]))"

definition placeholder_turn :: message where
  "placeholder_turn = \<lparr>role = ''user'', content = ''Please respond.''\<rparr>"

text \<open>The request \<open>chat\<close> builds; the temperature is not part of it.\<close>

definition anthropic_request :: "string \<Rightarrow> message list \<Rightarrow> int \<Rightarrow> anthropic_create" where
  "anthropic_request model messages max_tokens =
     (case anthropic_split messages [] [] of
        (system_content, chat_messages) \<Rightarrow>
          \<lparr>ac_model = model,
           ac_max_tokens = max_tokens,
           ac_system = (if system_content \<noteq> [] then Some (strip system_content) else None),
           ac_messages = (if chat_messages = [] then [placeholder_turn] else chat_messages)\<rparr>)"

text \<open>\<open>response.content[0].text.strip()\<close>, also \<open>response.choices[0].message.content.strip()\<close>.\<close>

definition first_text :: "string option list \<Rightarrow> error + string" where
  "first_text blocks =
     (case blocks of
        [] \<Rightarrow> Inl IndexError
      | b # _ \<Rightarrow> (case b of None \<Rightarrow> Inl AttributeError | Some t \<Rightarrow> Inr (strip t)))"

definition AnthropicProvider_chat ::
  "backend \<Rightarrow> string \<Rightarrow> string \<Rightarrow> message list \<Rightarrow> int \<Rightarrow> real \<Rightarrow> world \<Rightarrow> (error + string) \<times> world" where
  "AnthropicProvider_chat be model api_key messages max_tokens temperature w =
     (let req = anthropic_request model messages max_tokens;
          w' = w\<lparr>net_log := net_log w @ [AnthropicMessagesCreate api_key req]\<rparr>
      in case anthropic_messages_create be api_key req of
           Inl e \<Rightarrow> (Inl e, w')
         | Inr response \<Rightarrow> (first_text response, w'))"

section \<open>The other adapters\<close>

text \<open>
  \<open>OpenAIProvider.chat\<close>; the bodies of \<open>VLLMProvider.chat\<close> and
  \<open>OpenAICompatibleProvider.chat\<close> are the same text.
\<close>

definition OpenAIProvider_chat ::
  "backend \<Rightarrow> string \<Rightarrow> openai_client \<Rightarrow> message list \<Rightarrow> int \<Rightarrow> real \<Rightarrow> world \<Rightarrow> (error + string) \<times> world" where
  "OpenAIProvider_chat be model client messages max_tokens temperature w =
     (let req = \<lparr>oc_model = model, oc_messages = messages,
                 oc_max_tokens = max_tokens, oc_temperature = temperature\<rparr>;
          w' = w\<lparr>net_log := net_log w @ [OpenAIChatCreate client req]\<rparr>
      in case openai_chat_create be client req of
           Inl e \<Rightarrow> (Inl e, w')
         | Inr choices \<Rightarrow> (first_text choices, w'))"

definition VLLMProvider_chat ::
  "backend \<Rightarrow> string \<Rightarrow> openai_client \<Rightarrow> message list \<Rightarrow> int \<Rightarrow> real \<Rightarrow> world \<Rightarrow> (error + string) \<times> world" where
  "VLLMProvider_chat = OpenAIProvider_chat"

definition OpenAICompatibleProvider_chat ::
  "backend \<Rightarrow> string \<Rightarrow> openai_client \<Rightarrow> message list \<Rightarrow> int \<Rightarrow> real \<Rightarrow> world \<Rightarrow> (error + string) \<times> world" where
  "OpenAICompatibleProvider_chat = OpenAIProvider_chat"

text \<open>
  \<open>obj[key]\<close> on a parsed JSON value with a string key: a dict looks the key up, any
  other value raises \<open>TypeError\<close>. A \<open>JObj\<close> lists the items of the dict.
\<close>

definition py_getitem :: "json \<Rightarrow> string \<Rightarrow> error + json" where
  "py_getitem j key =
     (case j of
        JObj items \<Rightarrow> (case map_of items key of None \<Rightarrow> Inl (KeyError key) | Some v \<Rightarrow> Inr v)
      | _ \<Rightarrow> Inl TypeError)"

text \<open>\<open>v.strip()\<close> on a parsed JSON value: only a string has the method.\<close>

definition py_strip :: "json \<Rightarrow> error + string" where
  "py_strip j = (case j of JStr s \<Rightarrow> Inr (strip s) | _ \<Rightarrow> Inl AttributeError)"

text \<open>\<open>response.raise_for_status()\<close> raises for the codes 400 to 599 and no other.\<close>

definition raise_for_status :: "http_response \<Rightarrow> error option" where
  "raise_for_status response =
     (if 400 \<le> status_code response \<and> status_code response < 600
      then Some (HTTPError (status_code response)) else None)"

definition OllamaProvider_chat ::
  "backend \<Rightarrow> string \<Rightarrow> string \<Rightarrow> message list \<Rightarrow> int \<Rightarrow> real \<Rightarrow> world \<Rightarrow> (error + string) \<times> world" where
  "OllamaProvider_chat be model base_url messages max_tokens temperature w =
     (let url = base_url @ ''/api/chat'';
          body = \<lparr>ob_model = model, ob_messages = messages, ob_stream = False,
                  ob_num_predict = max_tokens, ob_temperature = temperature\<rparr>;
          w' = w\<lparr>net_log := net_log w @ [HttpPost url body 120]\<rparr>
      in case http_post be url body 120 of
           Inl e \<Rightarrow> (Inl e, w')
         | Inr response \<Rightarrow>
             (case raise_for_status response of
                Some e \<Rightarrow> (Inl e, w')
              | None \<Rightarrow>
                  (case json_of response of
                     None \<Rightarrow> (Inl JSONDecodeError, w')
                   | Some j \<Rightarrow>
                       (case py_getitem j ''message'' of
                          Inl e \<Rightarrow> (Inl e, w')
                        | Inr m \<Rightarrow>
                            (case py_getitem m ''content'' of
                               Inl e \<Rightarrow> (Inl e, w')
                             | Inr c \<Rightarrow> (py_strip c, w'))))))"

text \<open>The \<open>chat\<close> method of a provider object, by its class.\<close>

fun provider_chat ::
  "backend \<Rightarrow> provider \<Rightarrow> message list \<Rightarrow> int \<Rightarrow> real \<Rightarrow> world \<Rightarrow> (error + string) \<times> world" where
  "provider_chat be (OpenAIProvider model client) ms mt t w = OpenAIProvider_chat be model client ms mt t w"
| "provider_chat be (AnthropicProvider model api_key) ms mt t w = AnthropicProvider_chat be model api_key ms mt t w"
| "provider_chat be (OllamaProvider model base_url) ms mt t w = OllamaProvider_chat be model base_url ms mt t w"
| "provider_chat be (VLLMProvider model client) ms mt t w = VLLMProvider_chat be model client ms mt t w"
| "provider_chat be (OpenAICompatibleProvider model client) ms mt t w =
     OpenAICompatibleProvider_chat be model client ms mt t w"

text \<open>The \<open>name\<close> property.\<close>

fun provider_name :: "provider \<Rightarrow> string" where
  "provider_name (OpenAIProvider model client) = ''OpenAI ('' @ model @ '')''"
| "provider_name (AnthropicProvider model api_key) = ''Anthropic ('' @ model @ '')''"
| "provider_name (OllamaProvider model base_url) = ''Ollama ('' @ model @ '')''"
| "provider_name (VLLMProvider model client) = ''vLLM ('' @ model @ '')''"
| "provider_name (OpenAICompatibleProvider model client) = ''OpenAI-Compatible ('' @ model @ '')''"

section \<open>Constructors\<close>

definition OpenAIProvider_init :: "string \<Rightarrow> string \<Rightarrow> string option \<Rightarrow> provider" where
  "OpenAIProvider_init api_key model base_url =
     OpenAIProvider model
       \<lparr>cl_api_key = api_key, cl_base_url = nonempty base_url\<rparr>"

definition AnthropicProvider_init :: "string \<Rightarrow> string \<Rightarrow> provider" where
  "AnthropicProvider_init api_key model = AnthropicProvider model api_key"

definition OllamaProvider_init :: "string \<Rightarrow> string \<Rightarrow> provider" where
  "OllamaProvider_init model base_url = OllamaProvider model (rstrip_chars ''/'' base_url)"

definition VLLMProvider_init :: "string \<Rightarrow> string \<Rightarrow> string \<Rightarrow> provider" where
  "VLLMProvider_init model base_url api_key =
     VLLMProvider model \<lparr>cl_api_key = api_key, cl_base_url = Some base_url\<rparr>"

definition OpenAICompatibleProvider_init :: "string \<Rightarrow> string \<Rightarrow> string \<Rightarrow> provider" where
  "OpenAICompatibleProvider_init model base_url api_key =
     OpenAICompatibleProvider model \<lparr>cl_api_key = api_key, cl_base_url = Some base_url\<rparr>"

section \<open>The factory and the module-level accessor\<close>

definition getenv :: "(string \<rightharpoonup> string) \<Rightarrow> string \<Rightarrow> string option" where
  "getenv env key = env key"

definition getenv_default :: "(string \<rightharpoonup> string) \<Rightarrow> string \<Rightarrow> string \<Rightarrow> string" where
  "getenv_default env key d = (case env key of None \<Rightarrow> d | Some v \<Rightarrow> v)"

definition supported_text :: string where
  "supported_text = ''Supported: openai, anthropic, ollama, vllm, openai-compatible''"

definition get_llm_provider :: "(string \<rightharpoonup> string) \<Rightarrow> error + provider" where
  "get_llm_provider env =
     (let provider_type = lower (getenv_default env ''LLM_PROVIDER'' ''openai'');
          model = getenv env ''LLM_MODEL'';
          base_url = getenv env ''LLM_BASE_URL''
      in
      if provider_type = ''openai'' then
        (case nonempty (getenv env ''OPENAI_API_KEY'') of
           None \<Rightarrow>
             Inl (ValueError ''OPENAI_API_KEY environment variable is required for OpenAI provider'')
         | Some api_key \<Rightarrow>
             Inr (OpenAIProvider_init api_key (py_or model ''gpt-4o'') base_url))
      else if provider_type = ''anthropic'' \<or> provider_type = ''claude'' then
        (case nonempty (getenv env ''ANTHROPIC_API_KEY'') of
           None \<Rightarrow>
             Inl (ValueError ''ANTHROPIC_API_KEY environment variable is required for Anthropic provider'')
         | Some api_key \<Rightarrow>
             Inr (AnthropicProvider_init api_key (py_or model ''claude-sonnet-4-20250514'')))
      else if provider_type = ''ollama'' then
        Inr (OllamaProvider_init (py_or model ''llama3.1'') (py_or base_url ''http://localhost:11434''))
      else if provider_type = ''vllm'' then
        (case nonempty model of
           None \<Rightarrow>
             Inl (ValueError ''LLM_MODEL environment variable is required for vLLM provider'')
         | Some m \<Rightarrow>
             Inr (VLLMProvider_init m (py_or base_url ''http://localhost:8000/v1'')
                    (getenv_default env ''OPENAI_API_KEY'' ''EMPTY'')))
      else if provider_type = ''openai-compatible'' then
        (case nonempty model of
           None \<Rightarrow>
             Inl (ValueError ''LLM_MODEL environment variable is required for OpenAI-compatible provider'')
         | Some m \<Rightarrow>
             (case nonempty base_url of
                None \<Rightarrow>
                  Inl (ValueError ''LLM_BASE_URL environment variable is required for OpenAI-compatible provider'')
              | Some b \<Rightarrow>
                  Inr (OpenAICompatibleProvider_init m b
                         (getenv_default env ''OPENAI_API_KEY'' ''EMPTY''))))
      else
        Inl (ValueError (''Unknown LLM provider: '' @ provider_type @ ''. '' @ supported_text)))"

text \<open>
  \<open>get_provider\<close>: the global is assigned only when the factory returns; when it raises,
  the exception leaves \<open>get_provider\<close> and the global stays \<open>None\<close>.
\<close>

definition get_provider :: "world \<Rightarrow> (error + provider) \<times> world" where
  "get_provider w =
     (case provider_global w of
        None \<Rightarrow>
          (let w1 = w\<lparr>factory_calls := Suc (factory_calls w)\<rparr>
           in case get_llm_provider (environ w1) of
                Inl e \<Rightarrow> (Inl e, w1)
              | Inr p \<Rightarrow> (Inr p, w1\<lparr>provider_global := Some p\<rparr>))
      | Some p \<Rightarrow> (Inr p, w))"

text \<open>The module-level \<open>chat\<close>.\<close>

definition chat ::
  "backend \<Rightarrow> message list \<Rightarrow> int \<Rightarrow> real \<Rightarrow> world \<Rightarrow> (error + string) \<times> world" where
  "chat be messages max_tokens temperature w =
     (case get_provider w of
        (Inl e, w1) \<Rightarrow> (Inl e, w1)
      | (Inr p, w1) \<Rightarrow> provider_chat be p messages max_tokens temperature w1)"

section \<open>Sample worlds\<close>

text \<open>A process that has just started, with the given environment.\<close>

definition fresh_process :: "(string \<rightharpoonup> string) \<Rightarrow> world" where
  "fresh_process env = \<lparr>environ = env, provider_global = None, factory_calls = 0, net_log = []\<rparr>"

text \<open>A backend that cannot be reached, and one that answers every POST alike.\<close>

definition offline :: backend where
  "offline = \<lparr>http_post = (\<lambda>url body timeout. Inl RequestException),
              openai_chat_create = (\<lambda>client req. Inl APIError),
              anthropic_messages_create = (\<lambda>api_key req. Inl APIError)\<rparr>"

definition answering :: "int \<Rightarrow> json option \<Rightarrow> backend" where
  "answering status j =
     \<lparr>http_post = (\<lambda>url body timeout. Inr \<lparr>status_code = status, json_of = j\<rparr>),
      openai_chat_create = (\<lambda>client req. Inl APIError),
      anthropic_messages_create = (\<lambda>api_key req. Inl APIError)\<rparr>"

section \<open>Facts about strings\<close>










section \<open>Facts about the factory and the accessor\<close>

lemma get_llm_provider_openai:
  assumes "lower (getenv_default env ''LLM_PROVIDER'' ''openai'') = ''openai''"
  shows "get_llm_provider env =
     (case nonempty (env ''OPENAI_API_KEY'') of
        None \<Rightarrow> Inl (ValueError ''OPENAI_API_KEY environment variable is required for OpenAI provider'')
      | Some api_key \<Rightarrow>
          Inr (OpenAIProvider (py_or (env ''LLM_MODEL'') ''gpt-4o'')
                 \<lparr>cl_api_key = api_key, cl_base_url = nonempty (env ''LLM_BASE_URL'')\<rparr>))"
  using assms by (simp add: get_llm_provider_def getenv_def OpenAIProvider_init_def split: option.splits)

lemma get_llm_provider_anthropic:
  assumes "lower (getenv_default env ''LLM_PROVIDER'' ''openai'') = ''anthropic''
         \<or> lower (getenv_default env ''LLM_PROVIDER'' ''openai'') = ''claude''"
  shows "get_llm_provider env =
     (case nonempty (env ''ANTHROPIC_API_KEY'') of
        None \<Rightarrow> Inl (ValueError ''ANTHROPIC_API_KEY environment variable is required for Anthropic provider'')
      | Some api_key \<Rightarrow>
          Inr (AnthropicProvider (py_or (env ''LLM_MODEL'') ''claude-sonnet-4-20250514'') api_key))"
  using assms by (auto simp add: get_llm_provider_def getenv_def AnthropicProvider_init_def split: option.splits)

lemma get_llm_provider_ollama:
  assumes "lower (getenv_default env ''LLM_PROVIDER'' ''openai'') = ''ollama''"
  shows "get_llm_provider env =
     Inr (OllamaProvider (py_or (env ''LLM_MODEL'') ''llama3.1'')
            (rstrip_chars ''/'' (py_or (env ''LLM_BASE_URL'') ''http://localhost:11434'')))"
  using assms by (simp add: get_llm_provider_def getenv_def OllamaProvider_init_def split: option.splits)

lemma get_llm_provider_vllm:
  assumes "lower (getenv_default env ''LLM_PROVIDER'' ''openai'') = ''vllm''"
  shows "get_llm_provider env =
     (case nonempty (env ''LLM_MODEL'') of
        None \<Rightarrow> Inl (ValueError ''LLM_MODEL environment variable is required for vLLM provider'')
      | Some m \<Rightarrow>
          Inr (VLLMProvider m
                 \<lparr>cl_api_key = getenv_default env ''OPENAI_API_KEY'' ''EMPTY'',
                  cl_base_url = Some (py_or (env ''LLM_BASE_URL'') ''http://localhost:8000/v1'')\<rparr>))"
  using assms by (simp add: get_llm_provider_def getenv_def VLLMProvider_init_def split: option.splits)

lemma get_llm_provider_openai_compatible:
  assumes "lower (getenv_default env ''LLM_PROVIDER'' ''openai'') = ''openai-compatible''"
  shows "get_llm_provider env =
     (case nonempty (env ''LLM_MODEL'') of
        None \<Rightarrow> Inl (ValueError ''LLM_MODEL environment variable is required for OpenAI-compatible provider'')
      | Some m \<Rightarrow>
          (case nonempty (env ''LLM_BASE_URL'') of
             None \<Rightarrow> Inl (ValueError ''LLM_BASE_URL environment variable is required for OpenAI-compatible provider'')
           | Some b \<Rightarrow>
               Inr (OpenAICompatibleProvider m
                      \<lparr>cl_api_key = getenv_default env ''OPENAI_API_KEY'' ''EMPTY'',
                       cl_base_url = Some b\<rparr>)))"
  using assms by (simp add: get_llm_provider_def getenv_def OpenAICompatibleProvider_init_def split: option.splits)

lemma get_llm_provider_unknown:
  assumes "lower (getenv_default env ''LLM_PROVIDER'' ''openai'') \<notin>
             {''openai'', ''anthropic'', ''claude'', ''ollama'', ''vllm'', ''openai-compatible''}"
  shows "get_llm_provider env =
     Inl (ValueError (''Unknown LLM provider: '' @ lower (getenv_default env ''LLM_PROVIDER'' ''openai'')
            @ ''. Supported: openai, anthropic, ollama, vllm, openai-compatible''))"
  using assms by (simp add: get_llm_provider_def supported_text_def)

lemma chat_factory_failure:
  assumes "provider_global w = None" and "get_llm_provider (environ w) = Inl e"
  shows "chat be msgs max_tokens temperature w = (Inl e, w\<lparr>factory_calls := Suc (factory_calls w)\<rparr>)"
  using assms by (simp add: chat_def get_provider_def)

lemma provider_chat_keeps_globals:
  "provider_global (snd (provider_chat be p msgs mt t w)) = provider_global w
   \<and> factory_calls (snd (provider_chat be p msgs mt t w)) = factory_calls w
   \<and> environ (snd (provider_chat be p msgs mt t w)) = environ w"
  by (cases p)
    (simp_all add: OpenAIProvider_chat_def VLLMProvider_chat_def OpenAICompatibleProvider_chat_def
      AnthropicProvider_chat_def OllamaProvider_chat_def Let_def
      split: sum.splits option.splits)

section \<open>The request of the Anthropic adapter\<close>





section \<open>The factory\<close>

text \<open>
  C3, as the claim states it, fails, whichever set of kinds is taken as the recognized
  one. The value \<open>claude\<close> is not among the kinds the message lists, and the factory does not
  fail on it: it builds the Anthropic adapter. And where the factory does fail, the message
  carries the value as lower-cased by the factory, not the value that was configured: for
  \<open>Gemini\<close> the message reads \<open>gemini\<close> and does not contain \<open>Gemini\<close>.
\<close>

theorem unknown_kind_claim_fails:
  "get_llm_provider [''LLM_PROVIDER'' \<mapsto> ''claude'', ''ANTHROPIC_API_KEY'' \<mapsto> ''sk-ant-1''] =
     Inr (AnthropicProvider ''claude-sonnet-4-20250514'' ''sk-ant-1'')
   \<and> \<not> sublist ''claude'' supported_text
   \<and> get_llm_provider [''LLM_PROVIDER'' \<mapsto> ''Gemini''] =
       Inl (ValueError ''Unknown LLM provider: gemini. Supported: openai, anthropic, ollama, vllm, openai-compatible'')
   \<and> \<not> sublist ''Gemini''
         ''Unknown LLM provider: gemini. Supported: openai, anthropic, ollama, vllm, openai-compatible''"
proof -
  have l: "lower ''claude'' = ''claude''" "lower ''Gemini'' = ''gemini''" by code_simp+
  have a: "get_llm_provider [''LLM_PROVIDER'' \<mapsto> ''claude'', ''ANTHROPIC_API_KEY'' \<mapsto> ''sk-ant-1''] =
     Inr (AnthropicProvider ''claude-sonnet-4-20250514'' ''sk-ant-1'')"
    by (simp add: get_llm_provider_anthropic getenv_default_def l nonempty_def py_or_def)
  have b: "\<not> sublist ''claude'' supported_text" by code_simp
  have c: "get_llm_provider [''LLM_PROVIDER'' \<mapsto> ''Gemini''] =
       Inl (ValueError ''Unknown LLM provider: gemini. Supported: openai, anthropic, ollama, vllm, openai-compatible'')"
    using get_llm_provider_unknown [of "[''LLM_PROVIDER'' \<mapsto> ''Gemini'']"]
    by (simp add: getenv_default_def l)
  have d: "\<not> sublist ''Gemini''
         ''Unknown LLM provider: gemini. Supported: openai, anthropic, ollama, vllm, openai-compatible''"
    by code_simp
  show ?thesis using a b c d by simp
qed

text \<open>
  C3, amended: for every value \<open>v\<close> of \<open>LLM_PROVIDER\<close> whose lower-case form is none of the six
  strings the factory accepts (\<open>openai\<close>, \<open>anthropic\<close>, \<open>claude\<close>, \<open>ollama\<close>, \<open>vllm\<close>,
  \<open>openai-compatible\<close>), \<open>get_llm_provider\<close> raises the \<open>ValueError\<close> whose message names the
  lower-case form of \<open>v\<close> and lists the five kinds \<open>openai\<close>, \<open>anthropic\<close>, \<open>ollama\<close>, \<open>vllm\<close>
  and \<open>openai-compatible\<close>. No backend is called: in a process with no cached provider, the
  module-level \<open>chat\<close> ends with the same error and leaves the log of backend calls as it
  was.
\<close>

theorem unknown_provider_fails:
  assumes "environ w ''LLM_PROVIDER'' = Some v"
      and "lower v \<notin> {''openai'', ''anthropic'', ''claude'', ''ollama'', ''vllm'', ''openai-compatible''}"
  shows "get_llm_provider (environ w) =
           Inl (ValueError (''Unknown LLM provider: '' @ lower v
                  @ ''. Supported: openai, anthropic, ollama, vllm, openai-compatible''))
       \<and> (provider_global w = None \<longrightarrow>
            fst (chat be msgs max_tokens temperature w) =
              Inl (ValueError (''Unknown LLM provider: '' @ lower v
                     @ ''. Supported: openai, anthropic, ollama, vllm, openai-compatible''))
            \<and> net_log (snd (chat be msgs max_tokens temperature w)) = net_log w)"
proof -
  have sel: "getenv_default (environ w) ''LLM_PROVIDER'' ''openai'' = v"
    using assms(1) by (simp add: getenv_default_def)
  have fails: "get_llm_provider (environ w) =
           Inl (ValueError (''Unknown LLM provider: '' @ lower v
                  @ ''. Supported: openai, anthropic, ollama, vllm, openai-compatible''))"
    using get_llm_provider_unknown [of "environ w"] assms(2) unfolding sel by simp
  show ?thesis
    using fails by (simp add: chat_factory_failure)
qed

theorem unknown_provider_fails_witness:
  "get_llm_provider [''LLM_PROVIDER'' \<mapsto> ''Gemini''] =
     Inl (ValueError ''Unknown LLM provider: gemini. Supported: openai, anthropic, ollama, vllm, openai-compatible'')
   \<and> fst (chat offline [\<lparr>role = ''user'', content = ''hi''\<rparr>] 500 0.7
        \<lparr>environ = [''LLM_PROVIDER'' \<mapsto> ''Gemini''], provider_global = None,
         factory_calls = 0, net_log = []\<rparr>) =
     Inl (ValueError ''Unknown LLM provider: gemini. Supported: openai, anthropic, ollama, vllm, openai-compatible'')
   \<and> net_log (snd (chat offline [\<lparr>role = ''user'', content = ''hi''\<rparr>] 500 0.7
        \<lparr>environ = [''LLM_PROVIDER'' \<mapsto> ''Gemini''], provider_global = None,
         factory_calls = 0, net_log = []\<rparr>)) = []"
proof -
  have l: "lower ''Gemini'' = ''gemini''" by code_simp
  show ?thesis
    using unknown_provider_fails [of "\<lparr>environ = [''LLM_PROVIDER'' \<mapsto> ''Gemini''], provider_global = None,
         factory_calls = 0, net_log = []\<rparr>" "''Gemini''" offline "[\<lparr>role = ''user'', content = ''hi''\<rparr>]" 500 "0.7"]
    by (simp add: l)
qed

text \<open>
  C4: when the kind is \<open>openai\<close> and \<open>OPENAI_API_KEY\<close> is absent (or empty), the factory
  raises the error that names \<open>OPENAI_API_KEY\<close>; when the kind is \<open>anthropic\<close> and
  \<open>ANTHROPIC_API_KEY\<close> is absent (or empty), it raises the error that names
  \<open>ANTHROPIC_API_KEY\<close>. No other variable of the environment changes that, so no adapter of
  another kind is built instead.
\<close>

theorem missing_credential_fails:
  "(lower (getenv_default env ''LLM_PROVIDER'' ''openai'') = ''openai''
      \<and> (env ''OPENAI_API_KEY'' = None \<or> env ''OPENAI_API_KEY'' = Some [])
    \<longrightarrow> get_llm_provider env =
          Inl (ValueError ''OPENAI_API_KEY environment variable is required for OpenAI provider''))
   \<and> (lower (getenv_default env ''LLM_PROVIDER'' ''openai'') = ''anthropic''
      \<and> (env ''ANTHROPIC_API_KEY'' = None \<or> env ''ANTHROPIC_API_KEY'' = Some [])
    \<longrightarrow> get_llm_provider env =
          Inl (ValueError ''ANTHROPIC_API_KEY environment variable is required for Anthropic provider''))"
  by (auto simp: get_llm_provider_openai get_llm_provider_anthropic nonempty_def)

theorem missing_credential_fails_witness:
  "get_llm_provider [''LLM_PROVIDER'' \<mapsto> ''OpenAI'', ''ANTHROPIC_API_KEY'' \<mapsto> ''sk-ant-1''] =
     Inl (ValueError ''OPENAI_API_KEY environment variable is required for OpenAI provider'')
   \<and> get_llm_provider [''LLM_PROVIDER'' \<mapsto> ''anthropic'', ''OPENAI_API_KEY'' \<mapsto> ''sk-1''] =
     Inl (ValueError ''ANTHROPIC_API_KEY environment variable is required for Anthropic provider'')"
proof -
  have l: "lower ''OpenAI'' = ''openai''" "lower ''anthropic'' = ''anthropic''" by code_simp+
  show ?thesis
    using missing_credential_fails [of "[''LLM_PROVIDER'' \<mapsto> ''OpenAI'', ''ANTHROPIC_API_KEY'' \<mapsto> ''sk-ant-1'']"]
      missing_credential_fails [of "[''LLM_PROVIDER'' \<mapsto> ''anthropic'', ''OPENAI_API_KEY'' \<mapsto> ''sk-1'']"]
    by (simp add: l getenv_default_def)
qed

text \<open>
  C5: kind \<open>vllm\<close> with no model name fails with the error naming \<open>LLM_MODEL\<close>; kind
  \<open>openai-compatible\<close> with no model name fails with the error naming \<open>LLM_MODEL\<close>, and with
  a model name but no base URL with the error naming \<open>LLM_BASE_URL\<close>; kind \<open>vllm\<close> with a
  model name and no base URL builds the adapter on \<open>http://localhost:8000/v1\<close>. A failure
  of the factory comes before any backend call: in a process with no cached provider, the
  module-level \<open>chat\<close> ends with the factory's error and an unchanged log of backend calls.
\<close>

theorem gateway_kinds:
  "(lower (getenv_default (environ w) ''LLM_PROVIDER'' ''openai'') = ''vllm''
      \<and> (environ w ''LLM_MODEL'' = None \<or> environ w ''LLM_MODEL'' = Some [])
    \<longrightarrow> get_llm_provider (environ w) =
          Inl (ValueError ''LLM_MODEL environment variable is required for vLLM provider''))
   \<and> (lower (getenv_default (environ w) ''LLM_PROVIDER'' ''openai'') = ''openai-compatible''
      \<and> (environ w ''LLM_MODEL'' = None \<or> environ w ''LLM_MODEL'' = Some [])
    \<longrightarrow> get_llm_provider (environ w) =
          Inl (ValueError ''LLM_MODEL environment variable is required for OpenAI-compatible provider''))
   \<and> (lower (getenv_default (environ w) ''LLM_PROVIDER'' ''openai'') = ''openai-compatible''
      \<and> environ w ''LLM_MODEL'' = Some m \<and> m \<noteq> []
      \<and> (environ w ''LLM_BASE_URL'' = None \<or> environ w ''LLM_BASE_URL'' = Some [])
    \<longrightarrow> get_llm_provider (environ w) =
          Inl (ValueError ''LLM_BASE_URL environment variable is required for OpenAI-compatible provider''))
   \<and> (lower (getenv_default (environ w) ''LLM_PROVIDER'' ''openai'') = ''vllm''
      \<and> environ w ''LLM_MODEL'' = Some m \<and> m \<noteq> []
      \<and> (environ w ''LLM_BASE_URL'' = None \<or> environ w ''LLM_BASE_URL'' = Some [])
    \<longrightarrow> get_llm_provider (environ w) =
          Inr (VLLMProvider m
                 \<lparr>cl_api_key = getenv_default (environ w) ''OPENAI_API_KEY'' ''EMPTY'',
                  cl_base_url = Some ''http://localhost:8000/v1''\<rparr>))
   \<and> (provider_global w = None \<and> get_llm_provider (environ w) = Inl e
    \<longrightarrow> fst (chat be msgs max_tokens temperature w) = Inl e
        \<and> net_log (snd (chat be msgs max_tokens temperature w)) = net_log w)"
  by (auto simp: get_llm_provider_vllm get_llm_provider_openai_compatible nonempty_def py_or_def
      chat_factory_failure)

theorem gateway_kinds_witness:
  "get_llm_provider [''LLM_PROVIDER'' \<mapsto> ''vllm''] =
     Inl (ValueError ''LLM_MODEL environment variable is required for vLLM provider'')
   \<and> get_llm_provider [''LLM_PROVIDER'' \<mapsto> ''openai-compatible''] =
     Inl (ValueError ''LLM_MODEL environment variable is required for OpenAI-compatible provider'')
   \<and> get_llm_provider [''LLM_PROVIDER'' \<mapsto> ''openai-compatible'', ''LLM_MODEL'' \<mapsto> ''qwen2''] =
     Inl (ValueError ''LLM_BASE_URL environment variable is required for OpenAI-compatible provider'')
   \<and> get_llm_provider [''LLM_PROVIDER'' \<mapsto> ''vllm'', ''LLM_MODEL'' \<mapsto> ''qwen2''] =
     Inr (VLLMProvider ''qwen2''
            \<lparr>cl_api_key = ''EMPTY'', cl_base_url = Some ''http://localhost:8000/v1''\<rparr>)
   \<and> net_log (snd (chat offline [\<lparr>role = ''user'', content = ''q''\<rparr>] 500 0.7
                 (fresh_process [''LLM_PROVIDER'' \<mapsto> ''vllm'']))) = []"
proof -
  let ?msgs = "[\<lparr>role = ''user'', content = ''q''\<rparr>]"
  have l: "lower ''vllm'' = ''vllm''" "lower ''openai-compatible'' = ''openai-compatible''"
    by code_simp+
  have a: "get_llm_provider [''LLM_PROVIDER'' \<mapsto> ''vllm''] =
     Inl (ValueError ''LLM_MODEL environment variable is required for vLLM provider'')"
    using gateway_kinds [of "fresh_process [''LLM_PROVIDER'' \<mapsto> ''vllm'']"]
    by (simp add: fresh_process_def getenv_default_def l)
  have b: "get_llm_provider [''LLM_PROVIDER'' \<mapsto> ''openai-compatible''] =
     Inl (ValueError ''LLM_MODEL environment variable is required for OpenAI-compatible provider'')"
    using gateway_kinds [of "fresh_process [''LLM_PROVIDER'' \<mapsto> ''openai-compatible'']"]
    by (simp add: fresh_process_def getenv_default_def l)
  have c: "get_llm_provider [''LLM_PROVIDER'' \<mapsto> ''openai-compatible'', ''LLM_MODEL'' \<mapsto> ''qwen2''] =
     Inl (ValueError ''LLM_BASE_URL environment variable is required for OpenAI-compatible provider'')"
    using gateway_kinds [of "fresh_process [''LLM_PROVIDER'' \<mapsto> ''openai-compatible'', ''LLM_MODEL'' \<mapsto> ''qwen2'']" "''qwen2''"]
    by (simp add: fresh_process_def getenv_default_def l)
  have d: "get_llm_provider [''LLM_PROVIDER'' \<mapsto> ''vllm'', ''LLM_MODEL'' \<mapsto> ''qwen2''] =
     Inr (VLLMProvider ''qwen2''
            \<lparr>cl_api_key = ''EMPTY'', cl_base_url = Some ''http://localhost:8000/v1''\<rparr>)"
    using gateway_kinds [of "fresh_process [''LLM_PROVIDER'' \<mapsto> ''vllm'', ''LLM_MODEL'' \<mapsto> ''qwen2'']" "''qwen2''"]
    by (simp add: fresh_process_def getenv_default_def l)
  have e: "net_log (snd (chat offline ?msgs 500 0.7 (fresh_process [''LLM_PROVIDER'' \<mapsto> ''vllm'']))) = []"
    using gateway_kinds [of "fresh_process [''LLM_PROVIDER'' \<mapsto> ''vllm'']" "[]"
        "ValueError ''LLM_MODEL environment variable is required for vLLM provider''"
        offline ?msgs 500 "0.7"] a
    by (simp add: fresh_process_def getenv_default_def l)
  show ?thesis using a b c d e by simp
qed

text \<open>
  C6: for the kind \<open>ollama\<close> the factory always returns an Ollama adapter, whatever else the
  environment holds (no credential is read). With \<open>LLM_MODEL\<close> unset its model is
  \<open>llama3.1\<close>; with \<open>LLM_BASE_URL\<close> unset its endpoint is \<open>http://localhost:11434\<close>.
\<close>

theorem ollama_defaults:
  assumes "lower (getenv_default env ''LLM_PROVIDER'' ''openai'') = ''ollama''"
  shows "get_llm_provider env =
           Inr (OllamaProvider (py_or (env ''LLM_MODEL'') ''llama3.1'')
                  (rstrip_chars ''/'' (py_or (env ''LLM_BASE_URL'') ''http://localhost:11434'')))
       \<and> (env ''LLM_MODEL'' = None \<longrightarrow> py_or (env ''LLM_MODEL'') ''llama3.1'' = ''llama3.1'')
       \<and> (env ''LLM_BASE_URL'' = None \<longrightarrow>
            rstrip_chars ''/'' (py_or (env ''LLM_BASE_URL'') ''http://localhost:11434'') =
              ''http://localhost:11434'')"
proof -
  have "rstrip_chars ''/'' ''http://localhost:11434'' = ''http://localhost:11434''"
    by (simp add: rstrip_chars_def)
  then show ?thesis
    using assms by (simp add: get_llm_provider_ollama py_or_def)
qed

theorem ollama_defaults_witness:
  "get_llm_provider [''LLM_PROVIDER'' \<mapsto> ''Ollama''] =
     Inr (OllamaProvider ''llama3.1'' ''http://localhost:11434'')"
proof -
  have l: "lower ''Ollama'' = ''ollama''" by code_simp
  show ?thesis
    using ollama_defaults [of "[''LLM_PROVIDER'' \<mapsto> ''Ollama'']"]
    by (simp add: l getenv_default_def py_or_def)
qed

text \<open>
  C9, as the claim states it, fails: with \<open>LLM_PROVIDER\<close> absent and \<open>OPENAI_API_KEY\<close> set,
  the factory does not fail; it builds the OpenAI adapter.
\<close>

theorem selector_absent_builds_openai:
  "[''OPENAI_API_KEY'' \<mapsto> ''sk-1''] ''LLM_PROVIDER'' = None
   \<and> get_llm_provider [''OPENAI_API_KEY'' \<mapsto> ''sk-1''] =
       Inr (OpenAIProvider ''gpt-4o'' \<lparr>cl_api_key = ''sk-1'', cl_base_url = None\<rparr>)"
proof -
  have l: "lower ''openai'' = ''openai''" by code_simp
  show ?thesis
    by (simp add: get_llm_provider_openai getenv_default_def l nonempty_def py_or_def)
qed

text \<open>
  C9, amended: the selector is optional. When \<open>LLM_PROVIDER\<close> is absent the factory does what
  it does for the kind \<open>openai\<close>: it fails only when \<open>OPENAI_API_KEY\<close> is absent or empty, and
  otherwise builds the OpenAI adapter.
\<close>

theorem selector_defaults_to_openai:
  assumes "env ''LLM_PROVIDER'' = None"
  shows "get_llm_provider env = get_llm_provider (env(''LLM_PROVIDER'' \<mapsto> ''openai''))
       \<and> get_llm_provider env =
           (case nonempty (env ''OPENAI_API_KEY'') of
              None \<Rightarrow> Inl (ValueError ''OPENAI_API_KEY environment variable is required for OpenAI provider'')
            | Some api_key \<Rightarrow>
                Inr (OpenAIProvider (py_or (env ''LLM_MODEL'') ''gpt-4o'')
                       \<lparr>cl_api_key = api_key, cl_base_url = nonempty (env ''LLM_BASE_URL'')\<rparr>))"
proof -
  have l: "lower ''openai'' = ''openai''" by code_simp
  have a: "lower (getenv_default env ''LLM_PROVIDER'' ''openai'') = ''openai''"
    using assms by (simp add: getenv_default_def l)
  have b: "lower (getenv_default (env(''LLM_PROVIDER'' \<mapsto> ''openai'')) ''LLM_PROVIDER'' ''openai'') = ''openai''"
    by (simp add: getenv_default_def l)
  show ?thesis
    by (simp add: get_llm_provider_openai [OF a] get_llm_provider_openai [OF b]
        split: option.splits)
qed

theorem selector_defaults_to_openai_witness:
  "get_llm_provider [''LLM_MODEL'' \<mapsto> ''gpt-4.1'', ''OPENAI_API_KEY'' \<mapsto> ''sk-2''] =
     Inr (OpenAIProvider ''gpt-4.1'' \<lparr>cl_api_key = ''sk-2'', cl_base_url = None\<rparr>)
   \<and> get_llm_provider [''LLM_MODEL'' \<mapsto> ''gpt-4.1'', ''OPENAI_API_KEY'' \<mapsto> ''sk-2'',
                       ''LLM_PROVIDER'' \<mapsto> ''openai''] =
     Inr (OpenAIProvider ''gpt-4.1'' \<lparr>cl_api_key = ''sk-2'', cl_base_url = None\<rparr>)"
proof -
  let ?env = "[''LLM_MODEL'' \<mapsto> ''gpt-4.1'', ''OPENAI_API_KEY'' \<mapsto> ''sk-2'']"
  have absent: "?env ''LLM_PROVIDER'' = None" by simp
  note t = selector_defaults_to_openai [of ?env, OF absent]
  have built: "get_llm_provider ?env =
      Inr (OpenAIProvider ''gpt-4.1'' \<lparr>cl_api_key = ''sk-2'', cl_base_url = None\<rparr>)"
    using t [THEN conjunct2] by (simp add: nonempty_def py_or_def)
  have same: "get_llm_provider (?env(''LLM_PROVIDER'' \<mapsto> ''openai'')) = get_llm_provider ?env"
    using t [THEN conjunct1] by (rule sym)
  show ?thesis
    unfolding same using built by simp
qed

text \<open>
  C10: a value of \<open>LLM_PROVIDER\<close> whose lower-case form is \<open>claude\<close> gives the result the value
  \<open>anthropic\<close> gives, the Anthropic adapter when \<open>ANTHROPIC_API_KEY\<close> is set; and the word
  \<open>claude\<close> does not occur in the list of supported kinds of the unknown-kind message.
\<close>

theorem claude_alias:
  assumes "lower v = ''claude''"
  shows "get_llm_provider (env(''LLM_PROVIDER'' \<mapsto> v)) =
           get_llm_provider (env(''LLM_PROVIDER'' \<mapsto> ''anthropic''))
       \<and> (env ''ANTHROPIC_API_KEY'' = Some api_key \<and> api_key \<noteq> [] \<longrightarrow>
            get_llm_provider (env(''LLM_PROVIDER'' \<mapsto> v)) =
              Inr (AnthropicProvider (py_or (env ''LLM_MODEL'') ''claude-sonnet-4-20250514'') api_key))
       \<and> \<not> sublist ''claude'' supported_text"
proof -
  have l: "lower ''anthropic'' = ''anthropic''" by code_simp
  have a: "lower (getenv_default (env(''LLM_PROVIDER'' \<mapsto> v)) ''LLM_PROVIDER'' ''openai'') = ''claude''"
    using assms by (simp add: getenv_default_def)
  have b: "lower (getenv_default (env(''LLM_PROVIDER'' \<mapsto> ''anthropic'')) ''LLM_PROVIDER'' ''openai'') = ''anthropic''"
    by (simp add: getenv_default_def l)
  have c: "\<not> sublist ''claude'' supported_text"
    by code_simp
  show ?thesis
    using c by (simp add: get_llm_provider_anthropic a b nonempty_def split: option.splits)
qed

theorem claude_alias_witness:
  "get_llm_provider [''ANTHROPIC_API_KEY'' \<mapsto> ''sk-ant-1'', ''LLM_PROVIDER'' \<mapsto> ''Claude''] =
     Inr (AnthropicProvider ''claude-sonnet-4-20250514'' ''sk-ant-1'')
   \<and> get_llm_provider [''ANTHROPIC_API_KEY'' \<mapsto> ''sk-ant-1'', ''LLM_PROVIDER'' \<mapsto> ''anthropic''] =
     Inr (AnthropicProvider ''claude-sonnet-4-20250514'' ''sk-ant-1'')"
proof -
  let ?env = "[''ANTHROPIC_API_KEY'' \<mapsto> ''sk-ant-1'']"
  have l: "lower ''Claude'' = ''claude''" by code_simp
  note t = claude_alias [of "''Claude''" ?env "''sk-ant-1''", OF l]
  have built: "get_llm_provider (?env(''LLM_PROVIDER'' \<mapsto> ''Claude'')) =
      Inr (AnthropicProvider ''claude-sonnet-4-20250514'' ''sk-ant-1'')"
    using t [THEN conjunct2, THEN conjunct1] by (simp add: py_or_def)
  have same: "get_llm_provider (?env(''LLM_PROVIDER'' \<mapsto> ''anthropic'')) =
      get_llm_provider (?env(''LLM_PROVIDER'' \<mapsto> ''Claude''))"
    using t [THEN conjunct1] by (rule sym)
  show ?thesis
    unfolding same using built by simp
qed

section \<open>The accessor\<close>

text \<open>
  C7, as the claim states it, fails: the factory can be invoked more than once in a
  process. In a process with an empty environment the first \<open>get_provider\<close> raises, nothing
  is cached, and the second call invokes the factory again.
\<close>

theorem factory_invoked_twice:
  "fst (get_provider (fresh_process Map.empty)) =
     Inl (ValueError ''OPENAI_API_KEY environment variable is required for OpenAI provider'')
   \<and> factory_calls (snd (get_provider (snd (get_provider (fresh_process Map.empty))))) = 2"
proof -
  have l: "lower ''openai'' = ''openai''" by code_simp
  have f: "get_llm_provider Map.empty =
     Inl (ValueError ''OPENAI_API_KEY environment variable is required for OpenAI provider'')"
    by (simp add: get_llm_provider_openai getenv_default_def l nonempty_def)
  show ?thesis
    by (simp add: get_provider_def fresh_process_def f)
qed

text \<open>
  C7, amended: a call of \<open>get_provider\<close> with nothing cached invokes the factory once; when
  the factory returns, the provider is cached, and when it raises, nothing is cached (so
  the next call invokes the factory again). Once a provider is cached, every call returns
  that provider and changes nothing, whatever the environment holds by then; the
  module-level \<open>chat\<close> neither clears the cache nor invokes the factory.
\<close>

theorem get_provider_singleton:
  "(provider_global w = None \<longrightarrow>
      get_provider w =
        (case get_llm_provider (environ w) of
           Inl e \<Rightarrow> (Inl e, w\<lparr>factory_calls := Suc (factory_calls w)\<rparr>)
         | Inr p \<Rightarrow> (Inr p, w\<lparr>factory_calls := Suc (factory_calls w), provider_global := Some p\<rparr>)))
   \<and> (get_provider w = (Inr p, w') \<longrightarrow> provider_global w' = Some p)
   \<and> (provider_global w = Some p \<longrightarrow>
        get_provider (w\<lparr>environ := env\<rparr>) = (Inr p, w\<lparr>environ := env\<rparr>)
        \<and> provider_global (snd (chat be msgs max_tokens temperature w)) = Some p
        \<and> factory_calls (snd (chat be msgs max_tokens temperature w)) = factory_calls w)"
proof -
  have keep: "provider_global w = Some p \<Longrightarrow>
      chat be msgs max_tokens temperature w = provider_chat be p msgs max_tokens temperature w"
    by (simp add: chat_def get_provider_def)
  show ?thesis
    using provider_chat_keeps_globals [of be p msgs max_tokens temperature w]
    by (auto simp: get_provider_def keep split: sum.splits option.splits)
qed

theorem get_provider_singleton_witness:
  "get_provider (fresh_process [''OPENAI_API_KEY'' \<mapsto> ''sk-1'']) =
     (Inr (OpenAIProvider ''gpt-4o'' \<lparr>cl_api_key = ''sk-1'', cl_base_url = None\<rparr>),
      \<lparr>environ = [''OPENAI_API_KEY'' \<mapsto> ''sk-1''],
       provider_global = Some (OpenAIProvider ''gpt-4o'' \<lparr>cl_api_key = ''sk-1'', cl_base_url = None\<rparr>),
       factory_calls = 1, net_log = []\<rparr>)
   \<and> provider_global (snd (get_provider (fresh_process [''OPENAI_API_KEY'' \<mapsto> ''sk-1'']))) =
       Some (OpenAIProvider ''gpt-4o'' \<lparr>cl_api_key = ''sk-1'', cl_base_url = None\<rparr>)
   \<and> get_provider
       \<lparr>environ = [''LLM_PROVIDER'' \<mapsto> ''ollama''],
        provider_global = Some (OpenAIProvider ''gpt-4o'' \<lparr>cl_api_key = ''sk-1'', cl_base_url = None\<rparr>),
        factory_calls = 1, net_log = []\<rparr> =
     (Inr (OpenAIProvider ''gpt-4o'' \<lparr>cl_api_key = ''sk-1'', cl_base_url = None\<rparr>),
      \<lparr>environ = [''LLM_PROVIDER'' \<mapsto> ''ollama''],
       provider_global = Some (OpenAIProvider ''gpt-4o'' \<lparr>cl_api_key = ''sk-1'', cl_base_url = None\<rparr>),
       factory_calls = 1, net_log = []\<rparr>)
   \<and> provider_global (snd (chat offline [\<lparr>role = ''user'', content = ''q''\<rparr>] 500 0.7
        \<lparr>environ = [''OPENAI_API_KEY'' \<mapsto> ''sk-1''],
         provider_global = Some (OpenAIProvider ''gpt-4o'' \<lparr>cl_api_key = ''sk-1'', cl_base_url = None\<rparr>),
         factory_calls = 1, net_log = []\<rparr>)) =
       Some (OpenAIProvider ''gpt-4o'' \<lparr>cl_api_key = ''sk-1'', cl_base_url = None\<rparr>)
   \<and> factory_calls (snd (chat offline [\<lparr>role = ''user'', content = ''q''\<rparr>] 500 0.7
        \<lparr>environ = [''OPENAI_API_KEY'' \<mapsto> ''sk-1''],
         provider_global = Some (OpenAIProvider ''gpt-4o'' \<lparr>cl_api_key = ''sk-1'', cl_base_url = None\<rparr>),
         factory_calls = 1, net_log = []\<rparr>)) = 1"
proof -
  let ?p = "OpenAIProvider ''gpt-4o'' \<lparr>cl_api_key = ''sk-1'', cl_base_url = None\<rparr>"
  let ?w0 = "fresh_process [''OPENAI_API_KEY'' \<mapsto> ''sk-1'']"
  let ?w1 = "\<lparr>environ = [''OPENAI_API_KEY'' \<mapsto> ''sk-1''], provider_global = Some ?p,
             factory_calls = 1, net_log = []\<rparr>"
  let ?msgs = "[\<lparr>role = ''user'', content = ''q''\<rparr>]"
  have l: "lower ''openai'' = ''openai''" by code_simp
  have f: "get_llm_provider [''OPENAI_API_KEY'' \<mapsto> ''sk-1''] = Inr ?p"
    by (simp add: get_llm_provider_openai getenv_default_def l nonempty_def py_or_def)
  have a: "get_provider ?w0 = (Inr ?p, ?w1)"
    using get_provider_singleton [of ?w0, THEN conjunct1]
    by (simp add: fresh_process_def f)
  have b: "provider_global (snd (get_provider ?w0)) = Some ?p"
    using get_provider_singleton [of ?w0 ?p ?w1, THEN conjunct2, THEN conjunct1] a by simp
  have cached: "provider_global ?w1 = Some ?p" by simp
  note t = get_provider_singleton [of ?w1 ?p _ _ offline ?msgs 500 "0.7",
      THEN conjunct2, THEN conjunct2, rule_format, OF cached]
  have c: "get_provider (?w1\<lparr>environ := [''LLM_PROVIDER'' \<mapsto> ''ollama'']\<rparr>) =
      (Inr ?p, ?w1\<lparr>environ := [''LLM_PROVIDER'' \<mapsto> ''ollama'']\<rparr>)"
    using t [of "[''LLM_PROVIDER'' \<mapsto> ''ollama'']", THEN conjunct1] .
  have d: "provider_global (snd (chat offline ?msgs 500 0.7 ?w1)) = Some ?p"
    using t [THEN conjunct2, THEN conjunct1] .
  have e: "factory_calls (snd (chat offline ?msgs 500 0.7 ?w1)) = 1"
    using t [THEN conjunct2, THEN conjunct2] by simp
  show ?thesis using a b c d e by simp
qed

section \<open>The Ollama adapter\<close>

text \<open>
  C8, as the claim states it, fails: a status outside 2xx is not always an error. On a
  response of status 300 whose body holds a string at \<open>message.content\<close>, \<open>chat\<close> returns
  that string, because \<open>raise_for_status\<close> raises for 400 to 599 only.
\<close>

theorem ollama_non_2xx_returns_text:
  "fst (OllamaProvider_chat
         (answering 300 (Some (JObj [(''message'', JObj [(''content'', JStr ''hi'')])])))
         ''llama3.1'' ''http://localhost:11434'' [\<lparr>role = ''user'', content = ''q''\<rparr>] 500 0.7
         (fresh_process Map.empty)) = Inr ''hi''"
  by (simp add: OllamaProvider_chat_def answering_def raise_for_status_def py_getitem_def
      py_strip_def strip_def lstrip_def rstrip_def isspace_def fresh_process_def)

text \<open>
  C8, amended: for every message list, \<open>max_tokens\<close> and temperature, \<open>OllamaProvider.chat\<close>
  makes exactly one POST, to \<open>base_url/api/chat\<close>, with the body \<open>model\<close>, \<open>messages\<close>,
  \<open>stream: false\<close> and \<open>options\<close> of \<open>num_predict\<close> and \<open>temperature\<close>. On a response whose
  status is from 400 to 599 it raises \<open>HTTPError\<close> and returns no text; on a response of any
  other status (all of 2xx among them) whose body is a JSON object with a string at
  \<open>message.content\<close>, it returns that string with leading and trailing whitespace trimmed.
\<close>

theorem ollama_chat:
  "net_log (snd (OllamaProvider_chat be model base_url msgs max_tokens temperature w)) =
     net_log w @ [HttpPost (base_url @ ''/api/chat'')
                    \<lparr>ob_model = model, ob_messages = msgs, ob_stream = False,
                     ob_num_predict = max_tokens, ob_temperature = temperature\<rparr> 120]
   \<and> (http_post be (base_url @ ''/api/chat'')
          \<lparr>ob_model = model, ob_messages = msgs, ob_stream = False,
           ob_num_predict = max_tokens, ob_temperature = temperature\<rparr> 120 = Inr response
       \<and> 400 \<le> status_code response \<and> status_code response < 600
      \<longrightarrow> fst (OllamaProvider_chat be model base_url msgs max_tokens temperature w) =
            Inl (HTTPError (status_code response)))
   \<and> (http_post be (base_url @ ''/api/chat'')
          \<lparr>ob_model = model, ob_messages = msgs, ob_stream = False,
           ob_num_predict = max_tokens, ob_temperature = temperature\<rparr> 120 = Inr response
       \<and> (status_code response < 400 \<or> 600 \<le> status_code response)
       \<and> json_of response = Some (JObj items)
       \<and> map_of items ''message'' = Some (JObj inner)
       \<and> map_of inner ''content'' = Some (JStr text)
      \<longrightarrow> fst (OllamaProvider_chat be model base_url msgs max_tokens temperature w) =
            Inr (strip text))"
  by (auto simp: OllamaProvider_chat_def Let_def raise_for_status_def py_getitem_def py_strip_def
      split: sum.splits option.splits)

theorem ollama_chat_witness:
  "fst (OllamaProvider_chat
         (answering 404 (Some (JObj [(''error'', JStr ''model not found'')])))
         ''llama3.1'' ''http://localhost:11434'' [\<lparr>role = ''user'', content = ''q''\<rparr>] 500 0.7
         (fresh_process Map.empty)) = Inl (HTTPError 404)
   \<and> fst (OllamaProvider_chat
         (answering 200 (Some (JObj [(''message'', JObj [(''role'', JStr ''assistant''), (''content'', JStr '' SELECT 1;\<newline>'')])])))
         ''llama3.1'' ''http://localhost:11434'' [\<lparr>role = ''user'', content = ''q''\<rparr>] 500 0.7
         (fresh_process Map.empty)) = Inr ''SELECT 1;''
   \<and> net_log (snd (OllamaProvider_chat
         (answering 200 (Some (JObj [(''message'', JObj [(''role'', JStr ''assistant''), (''content'', JStr '' SELECT 1;\<newline>'')])])))
         ''llama3.1'' ''http://localhost:11434'' [\<lparr>role = ''user'', content = ''q''\<rparr>] 500 0.7
         (fresh_process Map.empty))) =
       [HttpPost ''http://localhost:11434/api/chat''
          \<lparr>ob_model = ''llama3.1'', ob_messages = [\<lparr>role = ''user'', content = ''q''\<rparr>],
           ob_stream = False, ob_num_predict = 500, ob_temperature = 0.7\<rparr> 120]"
proof -
  let ?msgs = "[\<lparr>role = ''user'', content = ''q''\<rparr>]"
  let ?ok = "answering 200 (Some (JObj [(''message'', JObj [(''role'', JStr ''assistant''), (''content'', JStr '' SELECT 1;\<newline>'')])]))"
  let ?bad = "answering 404 (Some (JObj [(''error'', JStr ''model not found'')]))"
  have s: "strip '' SELECT 1;\<newline>'' = ''SELECT 1;''"
    by (simp add: strip_def lstrip_def rstrip_def isspace_def)
  have a: "fst (OllamaProvider_chat ?bad ''llama3.1'' ''http://localhost:11434'' ?msgs 500 0.7
             (fresh_process Map.empty)) = Inl (HTTPError 404)"
    using ollama_chat [of ?bad "''llama3.1''" "''http://localhost:11434''" ?msgs 500 "0.7"
        "fresh_process Map.empty" "\<lparr>status_code = 404, json_of = Some (JObj [(''error'', JStr ''model not found'')])\<rparr>"]
    by (simp add: answering_def)
  have b: "fst (OllamaProvider_chat ?ok ''llama3.1'' ''http://localhost:11434'' ?msgs 500 0.7
             (fresh_process Map.empty)) = Inr ''SELECT 1;''"
    using ollama_chat [of ?ok "''llama3.1''" "''http://localhost:11434''" ?msgs 500 "0.7"
        "fresh_process Map.empty" "\<lparr>status_code = 200, json_of = Some (JObj [(''message'', JObj [(''role'', JStr ''assistant''), (''content'', JStr '' SELECT 1;\<newline>'')])])\<rparr>"
        "[(''message'', JObj [(''role'', JStr ''assistant''), (''content'', JStr '' SELECT 1;\<newline>'')])]"
        "[(''role'', JStr ''assistant''), (''content'', JStr '' SELECT 1;\<newline>'')]"
        "'' SELECT 1;\<newline>''"]
    by (simp add: answering_def s)
  have c: "net_log (snd (OllamaProvider_chat ?ok ''llama3.1'' ''http://localhost:11434'' ?msgs 500 0.7
             (fresh_process Map.empty))) =
       [HttpPost ''http://localhost:11434/api/chat''
          \<lparr>ob_model = ''llama3.1'', ob_messages = ?msgs,
           ob_stream = False, ob_num_predict = 500, ob_temperature = 0.7\<rparr> 120]"
    using ollama_chat [of ?ok "''llama3.1''" "''http://localhost:11434''" ?msgs 500 "0.7"
        "fresh_process Map.empty", THEN conjunct1]
    by (simp add: fresh_process_def)
  show ?thesis using a b c by simp
qed

end
